theory Spec2Isabelle
  imports Complex_Main "HOL-Library.Sublist"
begin

section \<open>The news sentiment service of \<^verbatim>\<open>py-agent/main.py\<close>\<close>

text \<open>
  The development embeds the two classifiers of the service, \<^verbatim>\<open>mock_analyze_news\<close> (the
  keyword heuristic) and \<^verbatim>\<open>real_analyze_news\<close> (the provider path with its two parsing
  stages and its fallback), and the endpoint \<^verbatim>\<open>analyze_news\<close> that validates a request.

  Conventions of the embedding:
  \<^item> a Python \<^verbatim>\<open>str\<close> is the list of its code points, so that \<^verbatim>\<open>len\<close>, slicing and
    \<^verbatim>\<open>in\<close> count what Python counts;
  \<^item> a Python \<^verbatim>\<open>float\<close> is a rational number or one of the three special values; decimal
    literals and \<^verbatim>\<open>+\<close>, \<^verbatim>\<open>*\<close> are read exactly, rounding is not modelled;
  \<^item> an exception is the left summand of a result; only subclasses of \<^verbatim>\<open>Exception\<close>
    are modelled, since these are what the handlers of the source catch;
  \<^item> the functions of the Python library and of pydantic whose tables are not part of the
    source are the fields of a record that every function takes as a parameter;
  \<^item> the log lines and the call of the provider are the events of a trace that every
    function returns beside its result;
  \<^item> the parameters \<^verbatim>\<open>symbol\<close> and \<^verbatim>\<open>news_items\<close> of the source are written
    \<open>symb\<close> and \<open>items\<close>, and the field \<^verbatim>\<open>symbol\<close> of the request is
    \<open>req_symbol\<close>, since the names are those of the fields of the records.
\<close>

subsection \<open>Strings\<close>

type_synonym ustring = "nat list"

definition ascii :: "string \<Rightarrow> ustring" where
  "ascii s = map of_char s"

text \<open>\<^verbatim>\<open>kw in s\<close> on strings: \<open>kw\<close> occurs in \<open>s\<close> at some position.\<close>

fun str_in :: "ustring \<Rightarrow> ustring \<Rightarrow> bool" where
  "str_in kw [] = (kw = [])"
| "str_in kw (c # cs) = (prefix kw (c # cs) \<or> str_in kw cs)"

text \<open>\<^verbatim>\<open>sep.join(xs)\<close>\<close>

fun str_join :: "ustring \<Rightarrow> ustring list \<Rightarrow> ustring" where
  "str_join sep [] = []"
| "str_join sep [x] = x"
| "str_join sep (x # y # ys) = x @ sep @ str_join sep (y # ys)"

text \<open>The decimal digits of a natural number, and \<^verbatim>\<open>str(i)\<close> of an integer.\<close>

fun digits10 :: "nat \<Rightarrow> ustring" where
  "digits10 n = (if n < 10 then [48 + n] else digits10 (n div 10) @ [48 + n mod 10])"

definition str_of_int :: "int \<Rightarrow> ustring" where
  "str_of_int i = (if i < 0 then 45 # digits10 (nat (- i)) else digits10 (nat i))"

subsection \<open>Values, exceptions and the library\<close>

datatype pyfloat = Finite rat | PosInf | NegInf | NaN

text \<open>The values that \<^verbatim>\<open>json.loads\<close> can return.\<close>

datatype pyval =
    PNone
  | PBool bool
  | PInt int
  | PFloat pyfloat
  | PStr ustring
  | PList "pyval list"
  | PDict "(ustring \<times> pyval) list"

datatype exn =
    ValueError
  | TypeError
  | AttributeError
  | IndexError
  | OverflowError
  | RecursionError
  | JSONDecodeError
  | ValidationError
  | ProviderError ustring

text \<open>
  The library functions that the source calls and whose definition lies outside the source.
  \<open>pydantic_str\<close> is what a pydantic \<^verbatim>\<open>str\<close> field makes of a value that is not a
  \<^verbatim>\<open>str\<close> (\<open>None\<close>: a validation error); it differs between the versions of pydantic.
\<close>

record pylib =
  str_lower :: "ustring \<Rightarrow> ustring"
  str_strip :: "ustring \<Rightarrow> ustring"
  json_loads :: "ustring \<Rightarrow> exn + pyval"
  float_of_str :: "ustring \<Rightarrow> pyfloat option"
  int_of_str :: "ustring \<Rightarrow> int option"
  pydantic_str :: "pyval \<Rightarrow> ustring option"
  exn_str :: "exn \<Rightarrow> ustring"

text \<open>
  \<^verbatim>\<open>float(v)\<close>. An integer converts unless it rounds beyond the largest double; a
  string is parsed; \<^verbatim>\<open>None\<close>, a list and a dict are a \<^verbatim>\<open>TypeError\<close>.
\<close>

definition py_float :: "pylib \<Rightarrow> pyval \<Rightarrow> exn + pyfloat" where
  "py_float lib v =
     (case v of
        PFloat f \<Rightarrow> Inr f
      | PInt i \<Rightarrow>
          (if \<bar>i\<bar> < 2 ^ 1024 - 2 ^ 970 then Inr (Finite (of_int i)) else Inl OverflowError)
      | PBool b \<Rightarrow> Inr (Finite (if b then 1 else 0))
      | PStr s \<Rightarrow> (case float_of_str lib s of None \<Rightarrow> Inl ValueError | Some f \<Rightarrow> Inr f)
      | PNone \<Rightarrow> Inl TypeError
      | PList xs \<Rightarrow> Inl TypeError
      | PDict d \<Rightarrow> Inl TypeError)"

text \<open>\<^verbatim>\<open>d.get(k, default)\<close>: a key that is present wins, whatever its value.\<close>

definition dict_get :: "(ustring \<times> pyval) list \<Rightarrow> ustring \<Rightarrow> pyval \<Rightarrow> pyval" where
  "dict_get d k dflt = (case map_of d k of Some v \<Rightarrow> v | None \<Rightarrow> dflt)"

subsection \<open>The models of the request and of the response\<close>

record NewsAnalysisRequest =
  req_symbol :: ustring
  news_items :: "ustring list"

record NewsAnalysisResponse =
  symbol :: ustring
  sentiment :: ustring
  reason :: ustring
  confidence_score :: rat

definition validate_str :: "pylib \<Rightarrow> pyval \<Rightarrow> ustring option" where
  "validate_str lib v = (case v of PStr s \<Rightarrow> Some s | _ \<Rightarrow> pydantic_str lib v)"

text \<open>
  The constructor \<^verbatim>\<open>NewsAnalysisResponse(symbol=.., sentiment=.., reason=..,
  confidence_score=..)\<close> with its validation: \<^verbatim>\<open>sentiment\<close> and \<^verbatim>\<open>reason\<close> are
  \<^verbatim>\<open>str\<close> fields without any constraint, \<^verbatim>\<open>confidence_score\<close> is a float with
  \<^verbatim>\<open>ge=0.0, le=1.0\<close>, which the special values fail.
\<close>

definition NewsAnalysisResponse_new ::
  "pylib \<Rightarrow> ustring \<Rightarrow> pyval \<Rightarrow> pyval \<Rightarrow> pyfloat \<Rightarrow> exn + NewsAnalysisResponse" where
  "NewsAnalysisResponse_new lib symb sent reas conf =
     (case validate_str lib sent of
        None \<Rightarrow> Inl ValidationError
      | Some s \<Rightarrow>
          (case validate_str lib reas of
             None \<Rightarrow> Inl ValidationError
           | Some r \<Rightarrow>
               (case conf of
                  Finite c \<Rightarrow>
                    (if 0 \<le> c \<and> c \<le> 1
                     then Inr \<lparr>symbol = symb, sentiment = s, reason = r, confidence_score = c\<rparr>
                     else Inl ValidationError)
                | _ \<Rightarrow> Inl ValidationError)))"

subsection \<open>The provider, the environment and the trace\<close>

text \<open>The keyword arguments of \<^verbatim>\<open>chat.completions.create\<close>; a message is a role and a content.\<close>

record completion_request =
  model :: ustring
  messages :: "(ustring \<times> ustring) list"
  max_tokens :: int
  temperature :: pyfloat

text \<open>Of the response only \<^verbatim>\<open>choices[i].message.content\<close> is read; it may be \<^verbatim>\<open>None\<close>.\<close>

record completion =
  choices :: "ustring option list"

type_synonym client = "completion_request \<Rightarrow> exn + completion"

text \<open>The three variables that \<^verbatim>\<open>os.getenv\<close> reads, unset or set to a string.\<close>

record environ =
  DEFAULT_MODEL :: "ustring option"
  MAX_TOKENS :: "ustring option"
  TEMPERATURE :: "ustring option"

datatype http_error = HTTPException nat ustring

datatype event =
    Log_mock ustring nat
  | Provider_create completion_request
  | Log_llm_failed exn
  | Log_request ustring nat
  | Log_done NewsAnalysisResponse
  | Log_request_failed exn

subsection \<open>The literals of the source\<close>

definition positive_keywords :: "ustring list" where
  "positive_keywords =
     [[28072], [19978, 28072], [21033, 22909], [20080, 20837], [25512, 33616],
      [22686, 38271], [25910, 30410], [21019, 26032], [31361, 30772], [24378, 21170]]"

definition negative_keywords :: "ustring list" where
  "negative_keywords =
     [[36300], [19979, 36300], [21033, 31354], [21334, 20986], [35686, 21578],
      [20111, 25439], [39118, 38505], [21361, 26426], [34928, 36864], [30130, 36719]]"

text \<open>The two halves of the reason of a positive and of a negative result, around the count.\<close>

definition reason_prefix :: ustring where
  "reason_prefix = [22522, 20110]"

definition reason_positive_suffix :: ustring where
  "reason_positive_suffix =
     [20010, 27491, 38754, 20449, 21495, 30340, 20998, 26512, 32467, 26524]"

definition reason_negative_suffix :: ustring where
  "reason_negative_suffix =
     [20010, 36127, 38754, 20449, 21495, 30340, 20998, 26512, 32467, 26524]"

definition reason_neutral :: ustring where
  "reason_neutral =
     [26410, 21457, 29616, 26126, 30830, 30340, 27491, 38754, 25110, 36127, 38754, 20449, 21495]"

definition reason_llm_default :: ustring where
  "reason_llm_default = [22522, 20110, 76, 76, 77, 20998, 26512, 30340, 32467, 26524]"

definition system_prompt :: ustring where
  "system_prompt =
     [20320, 26159, 19968, 20010, 19987, 19994, 30340, 37329, 34701, 20998, 26512, 24072,
      65292, 25797, 38271, 20998, 26512, 26032, 38395, 23545, 32929, 31080, 20215, 26684,
      30340, 24433, 21709, 12290]"

definition prompt_head :: ustring where
  "prompt_head = [10, 35831, 20998, 26512, 20197, 19979, 20851, 20110, 32929, 31080, 32]"

definition prompt_middle :: ustring where
  "prompt_middle =
     [32, 30340, 26032, 38395, 65292, 24182, 32473, 20986, 24773, 32490, 20998, 26512, 32467,
      26524, 12290, 10, 10, 26032, 38395, 20869, 23481, 65306, 10]"

definition prompt_tail :: ustring where
  "prompt_tail =
     [10, 10, 35831, 20174, 20197, 19979, 35282, 24230, 36827, 34892, 20998, 26512, 65306, 10,
      49, 46, 32, 23545, 32929, 31080, 20215, 26684, 30340, 28508, 22312, 24433, 21709, 10,
      50, 46, 32, 24066, 22330, 24773, 32490, 20542, 21521, 10,
      51, 46, 32, 25237, 36164, 24314, 35758, 20542, 21521, 10, 10,
      35831, 20197, 74, 83, 79, 78, 26684, 24335, 36820, 22238, 32467, 26524, 65292, 21253,
      21547, 20197, 19979, 23383, 27573, 65306, 10,
      45, 32, 115, 101, 110, 116, 105, 109, 101, 110, 116, 58, 32, 34, 80, 111, 115, 105, 116,
      105, 118, 101, 34, 44, 32, 34, 78, 101, 103, 97, 116, 105, 118, 101, 34, 44, 32, 25110,
      32, 34, 78, 101, 117, 116, 114, 97, 108, 34, 10,
      45, 32, 114, 101, 97, 115, 111, 110, 58, 32, 35814, 32454, 30340, 20998, 26512, 21407,
      22240, 10,
      45, 32, 99, 111, 110, 102, 105, 100, 101, 110, 99, 101, 95, 115, 99, 111, 114, 101, 58,
      32, 32622, 20449, 24230, 20998, 25968, 65288, 48, 46, 48, 45, 49, 46, 48, 65289, 10, 10,
      20998, 26512, 35201, 23458, 35266, 12289, 19987, 19994, 65292, 22522, 20110, 26032,
      38395, 20869, 23481, 30340, 20107, 23454, 36827, 34892, 21028, 26029, 12290, 10]"

definition detail_empty_symbol :: ustring where
  "detail_empty_symbol = [32929, 31080, 20195, 30721, 19981, 33021, 20026, 31354]"

definition detail_empty_news :: ustring where
  "detail_empty_news = [26032, 38395, 21015, 34920, 19981, 33021, 20026, 31354]"

definition detail_internal :: ustring where
  "detail_internal = [20869, 37096, 26381, 21153, 22120, 38169, 35823, 58, 32]"

subsection \<open>\<^verbatim>\<open>mock_analyze_news\<close>\<close>

record tally =
  sentiment_score :: int
  positive_count :: int
  negative_count :: int

text \<open>The bodies of the two inner loops, for one keyword.\<close>

definition count_positive :: "ustring \<Rightarrow> ustring \<Rightarrow> tally \<Rightarrow> tally" where
  "count_positive item_lower keyword st =
     (if str_in keyword item_lower
      then st\<lparr>positive_count := positive_count st + 1,
              sentiment_score := sentiment_score st + 1\<rparr>
      else st)"

definition count_negative :: "ustring \<Rightarrow> ustring \<Rightarrow> tally \<Rightarrow> tally" where
  "count_negative item_lower keyword st =
     (if str_in keyword item_lower
      then st\<lparr>negative_count := negative_count st + 1,
              sentiment_score := sentiment_score st - 1\<rparr>
      else st)"

text \<open>The body of the outer loop, for one news item.\<close>

definition count_item :: "pylib \<Rightarrow> ustring \<Rightarrow> tally \<Rightarrow> tally" where
  "count_item lib item st =
     (let item_lower = str_lower lib item;
          st1 = fold (count_positive item_lower) positive_keywords st
      in fold (count_negative item_lower) negative_keywords st1)"

definition count_news :: "pylib \<Rightarrow> ustring list \<Rightarrow> tally" where
  "count_news lib items =
     fold (count_item lib) items
       \<lparr>sentiment_score = 0, positive_count = 0, negative_count = 0\<rparr>"

definition mock_analyze_news ::
  "pylib \<Rightarrow> ustring \<Rightarrow> ustring list \<Rightarrow> event list \<times> (exn + NewsAnalysisResponse)" where
  "mock_analyze_news lib symb items =
     (let st = count_news lib items;
          (sent, confidence, reas) =
            (if sentiment_score st > 0 then
               (ascii ''Positive'',
                min (9 / 10) (6 / 10 + of_int (positive_count st) * (1 / 10)),
                reason_prefix @ str_of_int (positive_count st) @ reason_positive_suffix)
             else if sentiment_score st < 0 then
               (ascii ''Negative'',
                min (9 / 10) (6 / 10 + of_int (negative_count st) * (1 / 10)),
                reason_prefix @ str_of_int (negative_count st) @ reason_negative_suffix)
             else
               (ascii ''Neutral'', 5 / 10, reason_neutral))
      in ([Log_mock symb (length items)],
          NewsAnalysisResponse_new lib symb (PStr sent) (PStr reas) (Finite confidence)))"

subsection \<open>\<^verbatim>\<open>real_analyze_news\<close>\<close>

definition build_prompt :: "ustring \<Rightarrow> ustring list \<Rightarrow> ustring" where
  "build_prompt symb items =
     (let news_text = str_join [10] (map (\<lambda>item. ascii ''- '' @ item) items)
      in prompt_head @ symb @ prompt_middle @ news_text @ prompt_tail)"

text \<open>
  The keyword arguments of the call, evaluated in the order of the source:
  \<^verbatim>\<open>int(os.getenv("MAX_TOKENS", 1000))\<close> and \<^verbatim>\<open>float(os.getenv("TEMPERATURE", 0.7))\<close>
  raise on a string that does not parse.
\<close>

definition build_request :: "pylib \<Rightarrow> environ \<Rightarrow> ustring \<Rightarrow> exn + completion_request" where
  "build_request lib env prompt =
     (let m = (case DEFAULT_MODEL env of None \<Rightarrow> ascii ''gpt-3.5-turbo'' | Some s \<Rightarrow> s);
          msgs = [(ascii ''system'', system_prompt), (ascii ''user'', prompt)]
      in case (case MAX_TOKENS env of
                 None \<Rightarrow> Inr 1000
               | Some s \<Rightarrow> (case int_of_str lib s of None \<Rightarrow> Inl ValueError | Some i \<Rightarrow> Inr i)) of
           Inl e \<Rightarrow> Inl e
         | Inr mt \<Rightarrow>
             (case (case TEMPERATURE env of
                      None \<Rightarrow> Inr (Finite (7 / 10))
                    | Some s \<Rightarrow>
                        (case float_of_str lib s of None \<Rightarrow> Inl ValueError | Some f \<Rightarrow> Inr f)) of
                Inl e \<Rightarrow> Inl e
              | Inr t \<Rightarrow>
                  Inr \<lparr>model = m, messages = msgs, max_tokens = mt, temperature = t\<rparr>))"

text \<open>\<^verbatim>\<open>response.choices[0].message.content.strip()\<close>\<close>

definition response_content :: "pylib \<Rightarrow> completion \<Rightarrow> exn + ustring" where
  "response_content lib response =
     (case choices response of
        [] \<Rightarrow> Inl IndexError
      | c # cs \<Rightarrow> (case c of None \<Rightarrow> Inl AttributeError | Some raw \<Rightarrow> Inr (str_strip lib raw)))"

text \<open>
  The body of the inner \<^verbatim>\<open>try\<close>: \<^verbatim>\<open>json.loads\<close>, the three \<^verbatim>\<open>result.get\<close>, the
  coercion \<^verbatim>\<open>float(..)\<close> and the constructor. A result that is not a dict has no
  \<^verbatim>\<open>get\<close>.
\<close>

definition parse_structured :: "pylib \<Rightarrow> ustring \<Rightarrow> ustring \<Rightarrow> exn + NewsAnalysisResponse" where
  "parse_structured lib symb content =
     (case json_loads lib content of
        Inl e \<Rightarrow> Inl e
      | Inr result \<Rightarrow>
          (case result of
             PDict d \<Rightarrow>
               (case py_float lib (dict_get d (ascii ''confidence_score'') (PFloat (Finite (7 / 10)))) of
                  Inl e \<Rightarrow> Inl e
                | Inr c \<Rightarrow>
                    NewsAnalysisResponse_new lib symb
                      (dict_get d (ascii ''sentiment'') (PStr (ascii ''Neutral'')))
                      (dict_get d (ascii ''reason'') (PStr reason_llm_default))
                      c)
           | _ \<Rightarrow> Inl AttributeError))"

text \<open>The handler of \<^verbatim>\<open>json.JSONDecodeError\<close>: the analysis of the text.\<close>

definition parse_loose :: "pylib \<Rightarrow> ustring \<Rightarrow> ustring \<Rightarrow> exn + NewsAnalysisResponse" where
  "parse_loose lib symb content =
     (let sent =
            (if str_in (ascii ''positive'') (str_lower lib content) then ascii ''Positive''
             else if str_in (ascii ''negative'') (str_lower lib content) then ascii ''Negative''
             else ascii ''Neutral'')
      in NewsAnalysisResponse_new lib symb (PStr sent)
           (PStr (if length content > 200 then take 200 content @ ascii ''...'' else content))
           (Finite (8 / 10)))"

definition parse_content :: "pylib \<Rightarrow> ustring \<Rightarrow> ustring \<Rightarrow> exn + NewsAnalysisResponse" where
  "parse_content lib symb content =
     (case parse_structured lib symb content of
        Inl e \<Rightarrow> (if e = JSONDecodeError then parse_loose lib symb content else Inl e)
      | Inr r \<Rightarrow> Inr r)"

text \<open>The body of the outer \<^verbatim>\<open>try\<close>.\<close>

definition provider_path ::
  "pylib \<Rightarrow> environ \<Rightarrow> client \<Rightarrow> ustring \<Rightarrow> ustring list
     \<Rightarrow> event list \<times> (exn + NewsAnalysisResponse)" where
  "provider_path lib env cl symb items =
     (case build_request lib env (build_prompt symb items) of
        Inl e \<Rightarrow> ([], Inl e)
      | Inr rq \<Rightarrow>
          (case cl rq of
             Inl e \<Rightarrow> ([Provider_create rq], Inl e)
           | Inr response \<Rightarrow>
               (case response_content lib response of
                  Inl e \<Rightarrow> ([Provider_create rq], Inl e)
                | Inr content \<Rightarrow> ([Provider_create rq], parse_content lib symb content))))"

definition real_analyze_news ::
  "pylib \<Rightarrow> environ \<Rightarrow> client option \<Rightarrow> ustring \<Rightarrow> ustring list
     \<Rightarrow> event list \<times> (exn + NewsAnalysisResponse)" where
  "real_analyze_news lib env openai_client symb items =
     (case openai_client of
        None \<Rightarrow> mock_analyze_news lib symb items
      | Some cl \<Rightarrow>
          (case provider_path lib env cl symb items of
             (tr, Inr r) \<Rightarrow> (tr, Inr r)
           | (tr, Inl e) \<Rightarrow>
               (let (tr', r') = mock_analyze_news lib symb items
                in (tr @ [Log_llm_failed e] @ tr', r'))))"

subsection \<open>\<^verbatim>\<open>analyze_news\<close>\<close>

definition analyze_news ::
  "pylib \<Rightarrow> environ \<Rightarrow> client option \<Rightarrow> NewsAnalysisRequest
     \<Rightarrow> event list \<times> (http_error + NewsAnalysisResponse)" where
  "analyze_news lib env openai_client request =
     (let received = Log_request (req_symbol request) (length (news_items request))
      in if req_symbol request = [] then
           ([received], Inl (HTTPException 400 detail_empty_symbol))
         else if news_items request = [] then
           ([received], Inl (HTTPException 400 detail_empty_news))
         else
           (case real_analyze_news lib env openai_client (req_symbol request) (news_items request) of
              (tr, Inr result) \<Rightarrow> (received # tr @ [Log_done result], Inr result)
            | (tr, Inl e) \<Rightarrow>
                (received # tr @ [Log_request_failed e],
                 Inl (HTTPException 500 (detail_internal @ exn_str lib e)))))"

subsection \<open>The counts in the words of the specification\<close>

text \<open>
  The specification counts, for each text, the keywords of a set that the lower-cased text
  contains as a substring, and adds the counts of all texts.
\<close>

definition keyword_hits :: "ustring list \<Rightarrow> ustring \<Rightarrow> nat" where
  "keyword_hits kws text = card {kw \<in> set kws. \<exists>ps ss. text = ps @ kw @ ss}"

definition spec_count :: "(ustring \<Rightarrow> ustring) \<Rightarrow> ustring list \<Rightarrow> ustring list \<Rightarrow> int" where
  "spec_count lower kws texts = (\<Sum>t\<leftarrow>texts. int (keyword_hits kws (lower t)))"

text \<open>The same count as the loop computes it, for one text.\<close>

definition hits :: "ustring list \<Rightarrow> ustring \<Rightarrow> int" where
  "hits kws text = int (length (filter (\<lambda>kw. str_in kw text) kws))"

subsection \<open>Example inputs and a library to evaluate them\<close>

text \<open>
  The two news items of the request model's \<^verbatim>\<open>example\<close>, the first also in lower case,
  and the texts of two further scenarios: one with two negative keywords, one with none.
\<close>

definition text_iphone :: ustring where
  "text_iphone = [33529, 26524, 21457, 24067, 26032, 105, 80, 104, 111, 110, 101]"

definition text_iphone_lower :: ustring where
  "text_iphone_lower = [33529, 26524, 21457, 24067, 26032, 105, 112, 104, 111, 110, 101]"

definition text_tech_up :: ustring where
  "text_tech_up = [31185, 25216, 32929, 19978, 28072]"

definition text_loss_risk :: ustring where
  "text_loss_risk = [20844, 21496, 38754, 20020, 37325, 22823, 20111, 25439, 39118, 38505]"

definition text_report :: ustring where
  "text_report = [20844, 21496, 21457, 24067, 23395, 24230, 25253, 21578]"

text \<open>
  Texts that a provider may answer: three JSON objects (a sentiment outside the three
  values, a confidence of 1.5, a confidence that is the string "high") and a sentence that
  is no JSON and names both tokens.
\<close>

definition content_bullish :: ustring where
  "content_bullish =
     [123, 34, 115, 101, 110, 116, 105, 109, 101, 110, 116, 34, 58, 32, 34, 66, 117, 108, 108,
      105, 115, 104, 34, 125]"

definition content_conf_high :: ustring where
  "content_conf_high =
     [123, 34, 99, 111, 110, 102, 105, 100, 101, 110, 99, 101, 95, 115, 99, 111, 114, 101, 34,
      58, 32, 49, 46, 53, 125]"

definition content_conf_word :: ustring where
  "content_conf_word =
     [123, 34, 99, 111, 110, 102, 105, 100, 101, 110, 99, 101, 95, 115, 99, 111, 114, 101, 34,
      58, 32, 34, 104, 105, 103, 104, 34, 125]"

definition content_mixed :: ustring where
  "content_mixed = ascii ''The outlook is Positive, with few negative signs.''"

text \<open>A text of 201 characters, the letter a repeated.\<close>

definition content_long :: ustring where
  "content_long = replicate 201 97"

text \<open>
  An instance of the library record on which the examples are evaluated: lower case on the
  letters A to Z, stripping of the space and of the line feed, a JSON parser that knows the
  three objects above and rejects every other text, and number parsers that reject every
  string. It agrees with Python on the inputs that the examples use.
\<close>

definition lower_ascii :: "ustring \<Rightarrow> ustring" where
  "lower_ascii s = map (\<lambda>c. if 65 \<le> c \<and> c \<le> 90 then c + 32 else c) s"

definition strip_blank :: "ustring \<Rightarrow> ustring" where
  "strip_blank s =
     rev (dropWhile (\<lambda>c. c = 32 \<or> c = 10) (rev (dropWhile (\<lambda>c. c = 32 \<or> c = 10) s)))"

definition json_examples :: "ustring \<Rightarrow> exn + pyval" where
  "json_examples s =
     (if s = content_bullish then
        Inr (PDict [(ascii ''sentiment'', PStr (ascii ''Bullish''))])
      else if s = content_conf_high then
        Inr (PDict [(ascii ''confidence_score'', PFloat (Finite (3 / 2)))])
      else if s = content_conf_word then
        Inr (PDict [(ascii ''confidence_score'', PStr (ascii ''high''))])
      else Inl JSONDecodeError)"

definition lib0 :: pylib where
  "lib0 = \<lparr>str_lower = lower_ascii, str_strip = strip_blank,
            json_loads = json_examples,
            float_of_str = (\<lambda>s. None), int_of_str = (\<lambda>s. None),
            pydantic_str = (\<lambda>v. None), exn_str = (\<lambda>e. [])\<rparr>"

definition env0 :: environ where
  "env0 = \<lparr>DEFAULT_MODEL = None, MAX_TOKENS = None, TEMPERATURE = None\<rparr>"

text \<open>A provider that answers every request with one text, and one that times out.\<close>

definition client_reply :: "ustring \<Rightarrow> client" where
  "client_reply text = (\<lambda>rq. Inr \<lparr>choices = [Some text]\<rparr>)"

definition client_timeout :: client where
  "client_timeout = (\<lambda>rq. Inl (ProviderError (ascii ''timeout'')))"

text \<open>
  Two further answers of a provider: the JSON string "positive", with its quotes, which
  \<^verbatim>\<open>json.loads\<close> accepts and which is no object; and a text of 202 characters, a space,
  the letter a 200 times and a line feed. The second library knows the first of them.
\<close>

definition content_quoted :: ustring where
  "content_quoted = [34, 112, 111, 115, 105, 116, 105, 118, 101, 34]"

definition content_padded :: ustring where
  "content_padded = 32 # replicate 200 97 @ [10]"

definition lib1 :: pylib where
  "lib1 = lib0\<lparr>json_loads :=
            (\<lambda>s. if s = content_quoted then Inr (PStr (ascii ''positive'')) else json_examples s)\<rparr>"

section \<open>Properties\<close>

subsection \<open>Auxiliary facts\<close>

lemma str_in_iff_sublist: "str_in kw s \<longleftrightarrow> sublist kw s"
  by (induction s) (auto simp: sublist_Cons_right)

subsection \<open>The loops of the heuristic\<close>

lemma fold_count_positive:
  "fold (count_positive t) kws st =
     st\<lparr>positive_count := positive_count st + hits kws t,
        sentiment_score := sentiment_score st + hits kws t\<rparr>"
  by (induction kws arbitrary: st) (simp_all add: count_positive_def hits_def)

lemma fold_count_negative:
  "fold (count_negative t) kws st =
     st\<lparr>negative_count := negative_count st + hits kws t,
        sentiment_score := sentiment_score st - hits kws t\<rparr>"
  by (induction kws arbitrary: st) (simp_all add: count_negative_def hits_def)

lemma count_item_eq:
  "count_item lib item st =
     \<lparr>sentiment_score = sentiment_score st + hits positive_keywords (str_lower lib item)
         - hits negative_keywords (str_lower lib item),
      positive_count = positive_count st + hits positive_keywords (str_lower lib item),
      negative_count = negative_count st + hits negative_keywords (str_lower lib item)\<rparr>"
  by (simp add: count_item_def Let_def fold_count_positive fold_count_negative)

lemma fold_count_item:
  "fold (count_item lib) items st =
     \<lparr>sentiment_score = sentiment_score st
         + (\<Sum>t\<leftarrow>items. hits positive_keywords (str_lower lib t))
         - (\<Sum>t\<leftarrow>items. hits negative_keywords (str_lower lib t)),
      positive_count = positive_count st + (\<Sum>t\<leftarrow>items. hits positive_keywords (str_lower lib t)),
      negative_count = negative_count st + (\<Sum>t\<leftarrow>items. hits negative_keywords (str_lower lib t))\<rparr>"
  by (induction items arbitrary: st) (simp_all add: count_item_eq)

lemma count_news_hits:
  "count_news lib items =
     \<lparr>sentiment_score = (\<Sum>t\<leftarrow>items. hits positive_keywords (str_lower lib t))
                        - (\<Sum>t\<leftarrow>items. hits negative_keywords (str_lower lib t)),
      positive_count = (\<Sum>t\<leftarrow>items. hits positive_keywords (str_lower lib t)),
      negative_count = (\<Sum>t\<leftarrow>items. hits negative_keywords (str_lower lib t))\<rparr>"
  by (simp add: count_news_def fold_count_item)

lemma distinct_positive_keywords: "distinct positive_keywords"
  by (simp add: positive_keywords_def)

lemma distinct_negative_keywords: "distinct negative_keywords"
  by (simp add: negative_keywords_def)

lemma hits_eq_keyword_hits: "distinct kws \<Longrightarrow> hits kws text = int (keyword_hits kws text)"
  by (simp add: hits_def keyword_hits_def str_in_iff_sublist sublist_def
      distinct_length_filter Int_def conj_commute)

lemma hits_nonneg: "0 \<le> hits kws text"
  by (simp add: hits_def)

lemma count_news_nonneg:
  "0 \<le> positive_count (count_news lib items)" "0 \<le> negative_count (count_news lib items)"
  by (auto simp: count_news_hits hits_nonneg intro!: sum_list_nonneg)

subsection \<open>The result of the heuristic\<close>

lemma NewsAnalysisResponse_new_str:
  "0 \<le> c \<Longrightarrow> c \<le> 1 \<Longrightarrow>
   NewsAnalysisResponse_new lib symb (PStr s) (PStr r) (Finite c) =
     Inr \<lparr>symbol = symb, sentiment = s, reason = r, confidence_score = c\<rparr>"
  by (simp add: NewsAnalysisResponse_new_def validate_str_def)

lemma heuristic_confidence_lower:
  "0 \<le> n \<Longrightarrow> 0 \<le> min (9 / 10) (6 / 10 + of_int n * (1 / 10) :: rat)"
  by (simp add: min_def)

lemma heuristic_confidence_upper:
  "min (9 / 10) (6 / 10 + of_int n * (1 / 10) :: rat) \<le> 1"
  by (simp add: min_def)

lemma mock_analyze_news_snd:
  "snd (mock_analyze_news lib symb items) =
     (if 0 < sentiment_score (count_news lib items) then
        Inr \<lparr>symbol = symb, sentiment = ascii ''Positive'',
             reason = reason_prefix @ str_of_int (positive_count (count_news lib items))
                        @ reason_positive_suffix,
             confidence_score =
               min (9 / 10) (6 / 10 + of_int (positive_count (count_news lib items)) * (1 / 10))\<rparr>
      else if sentiment_score (count_news lib items) < 0 then
        Inr \<lparr>symbol = symb, sentiment = ascii ''Negative'',
             reason = reason_prefix @ str_of_int (negative_count (count_news lib items))
                        @ reason_negative_suffix,
             confidence_score =
               min (9 / 10) (6 / 10 + of_int (negative_count (count_news lib items)) * (1 / 10))\<rparr>
      else
        Inr \<lparr>symbol = symb, sentiment = ascii ''Neutral'', reason = reason_neutral,
             confidence_score = 5 / 10\<rparr>)"
proof -
  have pos: "0 \<le> positive_count (count_news lib items)"
    and neg: "0 \<le> negative_count (count_news lib items)"
    by (rule count_news_nonneg)+
  show ?thesis
    using heuristic_confidence_lower [OF pos] heuristic_confidence_lower [OF neg]
    by (simp add: mock_analyze_news_def Let_def NewsAnalysisResponse_new_str
        heuristic_confidence_upper)
qed

lemma mock_analyze_news_fst:
  "fst (mock_analyze_news lib symb items) = [Log_mock symb (length items)]"
  by (simp add: mock_analyze_news_def Let_def split: prod.splits)

lemma reason_literals_nonempty: "reason_prefix \<noteq> []" "reason_neutral \<noteq> []"
  by (simp_all add: reason_prefix_def reason_neutral_def)

lemma mock_analyze_news_valid:
  "\<exists>r. snd (mock_analyze_news lib symb items) = Inr r
     \<and> symbol r = symb
     \<and> sentiment r \<in> {ascii ''Positive'', ascii ''Negative'', ascii ''Neutral''}
     \<and> reason r \<noteq> []
     \<and> 0 \<le> confidence_score r \<and> confidence_score r \<le> 1"
proof -
  have pos: "0 \<le> (of_int (positive_count (count_news lib items)) :: rat)"
    and neg: "0 \<le> (of_int (negative_count (count_news lib items)) :: rat)"
    by (simp_all add: count_news_nonneg)
  show ?thesis
    using pos neg
    by (auto simp: mock_analyze_news_snd reason_literals_nonempty min_def)
qed

subsection \<open>Evaluation of the examples\<close>

lemma lower_lib0:
  "str_lower lib0 text_tech_up = text_tech_up"
  "str_lower lib0 text_iphone = text_iphone_lower"
  "str_lower lib0 text_loss_risk = text_loss_risk"
  "str_lower lib0 text_report = text_report"
  by (simp_all add: lib0_def lower_ascii_def text_tech_up_def text_iphone_def
      text_iphone_lower_def text_loss_risk_def text_report_def)

lemma hits_examples:
  "hits positive_keywords text_tech_up = 2"
  "hits negative_keywords text_tech_up = 0"
  "hits positive_keywords text_iphone_lower = 0"
  "hits negative_keywords text_iphone_lower = 0"
  "hits positive_keywords text_loss_risk = 0"
  "hits negative_keywords text_loss_risk = 2"
  "hits positive_keywords text_report = 0"
  "hits negative_keywords text_report = 0"
  by (simp_all add: hits_def positive_keywords_def negative_keywords_def text_tech_up_def
      text_iphone_lower_def text_loss_risk_def text_report_def)

lemma str_of_int_small: "str_of_int 2 = ascii ''2''" "str_of_int 1 = ascii ''1''"
  by (simp_all add: str_of_int_def ascii_def)

subsection \<open>The heuristic classifier\<close>

text \<open>
  Claim C4. The loops of \<^verbatim>\<open>mock_analyze_news\<close> compute the counts of the specification:
  \<open>positive_count\<close> and \<open>negative_count\<close> are, summed over the texts, the number of
  keywords of the positive and of the negative list that the lower-cased text contains as a
  substring, and the score is their difference.
\<close>

theorem count_news_spec:
  "count_news lib items =
     \<lparr>sentiment_score = spec_count (str_lower lib) positive_keywords items
                        - spec_count (str_lower lib) negative_keywords items,
      positive_count = spec_count (str_lower lib) positive_keywords items,
      negative_count = spec_count (str_lower lib) negative_keywords items\<rparr>"
  by (simp add: count_news_hits spec_count_def hits_eq_keyword_hits
      distinct_positive_keywords distinct_negative_keywords)

theorem count_news_spec_witness:
  "spec_count (str_lower lib0) positive_keywords [text_iphone, text_tech_up, text_loss_risk] = 2
   \<and> spec_count (str_lower lib0) negative_keywords [text_iphone, text_tech_up, text_loss_risk] = 2
   \<and> sentiment_score (count_news lib0 [text_iphone, text_tech_up, text_loss_risk]) = 0"
proof -
  have "count_news lib0 [text_iphone, text_tech_up, text_loss_risk] =
      \<lparr>sentiment_score = 0, positive_count = 2, negative_count = 2\<rparr>"
    by (simp add: count_news_hits lower_lib0 hits_examples)
  with count_news_spec [of lib0 "[text_iphone, text_tech_up, text_loss_risk]"]
  show ?thesis by simp
qed

text \<open>
  Claim C3. \<^verbatim>\<open>mock_analyze_news\<close> decides on the accumulated counts: a positive score
  gives Positive with confidence \<open>min 0.9 (0.6 + positive_count * 0.1)\<close> and a reason that
  carries \<open>positive_count\<close>; a negative score gives Negative with the same formula on
  \<open>negative_count\<close> and a reason that carries \<open>negative_count\<close>; the score zero gives
  Neutral with confidence 0.5 and the fixed reason.
\<close>

theorem mock_analyze_news_policy:
  "(0 < sentiment_score (count_news lib items) \<longrightarrow>
      snd (mock_analyze_news lib symb items) =
        Inr \<lparr>symbol = symb, sentiment = ascii ''Positive'',
             reason = reason_prefix @ str_of_int (positive_count (count_news lib items))
                        @ reason_positive_suffix,
             confidence_score =
               min (9 / 10) (6 / 10 + of_int (positive_count (count_news lib items)) * (1 / 10))\<rparr>)
   \<and> (sentiment_score (count_news lib items) < 0 \<longrightarrow>
      snd (mock_analyze_news lib symb items) =
        Inr \<lparr>symbol = symb, sentiment = ascii ''Negative'',
             reason = reason_prefix @ str_of_int (negative_count (count_news lib items))
                        @ reason_negative_suffix,
             confidence_score =
               min (9 / 10) (6 / 10 + of_int (negative_count (count_news lib items)) * (1 / 10))\<rparr>)
   \<and> (sentiment_score (count_news lib items) = 0 \<longrightarrow>
      snd (mock_analyze_news lib symb items) =
        Inr \<lparr>symbol = symb, sentiment = ascii ''Neutral'', reason = reason_neutral,
             confidence_score = 5 / 10\<rparr>)"
  by (simp add: mock_analyze_news_snd)

theorem mock_analyze_news_policy_witness:
  "snd (mock_analyze_news lib0 (ascii ''AAPL'') [text_tech_up]) =
     Inr \<lparr>symbol = ascii ''AAPL'', sentiment = ascii ''Positive'',
          reason = reason_prefix @ ascii ''2'' @ reason_positive_suffix,
          confidence_score = 4 / 5\<rparr>
   \<and> snd (mock_analyze_news lib0 (ascii ''XYZ'') [text_loss_risk]) =
     Inr \<lparr>symbol = ascii ''XYZ'', sentiment = ascii ''Negative'',
          reason = reason_prefix @ ascii ''2'' @ reason_negative_suffix,
          confidence_score = 4 / 5\<rparr>
   \<and> snd (mock_analyze_news lib0 (ascii ''NEU'') [text_report]) =
     Inr \<lparr>symbol = ascii ''NEU'', sentiment = ascii ''Neutral'', reason = reason_neutral,
          confidence_score = 1 / 2\<rparr>"
  using mock_analyze_news_policy [of lib0 "[text_tech_up]" "ascii ''AAPL''"]
    mock_analyze_news_policy [of lib0 "[text_loss_risk]" "ascii ''XYZ''"]
    mock_analyze_news_policy [of lib0 "[text_report]" "ascii ''NEU''"]
  by (simp add: count_news_hits lower_lib0 hits_examples str_of_int_small)

text \<open>
  Claim C9, as the code has it. On the example request, symbol AAPL with the two news items
  of the request model, the second item contains two keywords of the positive list, the
  one-character keyword and the two-character keyword that ends in it. The heuristic
  therefore answers Positive with confidence 0.8, that is 0.6 + 2 * 0.1, and a reason that
  names 2 positive signals, for every library whose lower case leaves the Chinese characters
  as they are.
\<close>

theorem example_request_heuristic:
  assumes "str_lower lib text_iphone = text_iphone_lower"
    and "str_lower lib text_tech_up = text_tech_up"
  shows "snd (mock_analyze_news lib (ascii ''AAPL'') [text_iphone, text_tech_up]) =
     Inr \<lparr>symbol = ascii ''AAPL'', sentiment = ascii ''Positive'',
          reason = reason_prefix @ ascii ''2'' @ reason_positive_suffix,
          confidence_score = 8 / 10\<rparr>"
proof -
  have "count_news lib [text_iphone, text_tech_up] =
      \<lparr>sentiment_score = 2, positive_count = 2, negative_count = 0\<rparr>"
    by (simp add: count_news_hits assms hits_examples)
  then show ?thesis
    by (simp add: mock_analyze_news_snd str_of_int_small)
qed

theorem example_request_heuristic_witness:
  "str_lower lib0 text_iphone = text_iphone_lower \<and> str_lower lib0 text_tech_up = text_tech_up
   \<and> snd (mock_analyze_news lib0 (ascii ''AAPL'') [text_iphone, text_tech_up]) =
     Inr \<lparr>symbol = ascii ''AAPL'', sentiment = ascii ''Positive'',
          reason = reason_prefix @ ascii ''2'' @ reason_positive_suffix,
          confidence_score = 8 / 10\<rparr>"
  using example_request_heuristic [of lib0] by (simp add: lower_lib0)

text \<open>
  The claim as the specification states it, confidence 0.7 and one positive signal, fails
  on this input: the count is 2 and the result is not the one of the specification.
\<close>

theorem example_request_not_one_signal:
  "positive_count (count_news lib0 [text_iphone, text_tech_up]) = 2
   \<and> snd (mock_analyze_news lib0 (ascii ''AAPL'') [text_iphone, text_tech_up]) \<noteq>
     Inr \<lparr>symbol = ascii ''AAPL'', sentiment = ascii ''Positive'',
          reason = reason_prefix @ ascii ''1'' @ reason_positive_suffix,
          confidence_score = 7 / 10\<rparr>
   \<and> confidence_score (projr (snd (mock_analyze_news lib0 (ascii ''AAPL'')
         [text_iphone, text_tech_up]))) = 8 / 10"
proof -
  have "count_news lib0 [text_iphone, text_tech_up] =
      \<lparr>sentiment_score = 2, positive_count = 2, negative_count = 0\<rparr>"
    by (simp add: count_news_hits lower_lib0 hits_examples)
  then show ?thesis
    by (simp add: mock_analyze_news_snd)
qed

subsection \<open>The absent provider\<close>

text \<open>
  Claim C1. When no provider client is configured, \<^verbatim>\<open>real_analyze_news\<close> returns, for every
  symbol and every list of texts, exactly what \<^verbatim>\<open>mock_analyze_news\<close> returns on the same
  input: the same result and the same trace.
\<close>

theorem real_analyze_news_without_client:
  "real_analyze_news lib env None symb items = mock_analyze_news lib symb items"
  by (simp add: real_analyze_news_def)

subsection \<open>The provider path\<close>

lemma validate_str_PStr: "validate_str lib (PStr s) = Some s"
  by (simp add: validate_str_def)

lemma NewsAnalysisResponse_new_Inr:
  "NewsAnalysisResponse_new lib symb sv rv f = Inr r \<Longrightarrow>
     symbol r = symb \<and> validate_str lib sv = Some (sentiment r)
     \<and> validate_str lib rv = Some (reason r)
     \<and> f = Finite (confidence_score r)
     \<and> 0 \<le> confidence_score r \<and> confidence_score r \<le> 1"
  by (auto simp: NewsAnalysisResponse_new_def split: option.splits pyfloat.splits if_splits)

lemma NewsAnalysisResponse_new_Inl:
  "NewsAnalysisResponse_new lib symb sv rv f = Inl e \<Longrightarrow> e = ValidationError"
  by (auto simp: NewsAnalysisResponse_new_def split: option.splits pyfloat.splits if_splits)

lemma py_float_Inl: "py_float lib v = Inl e \<Longrightarrow> e \<noteq> JSONDecodeError"
  by (auto simp: py_float_def split: pyval.splits option.splits if_splits)

lemma parse_loose_eq:
  "parse_loose lib symb content =
     Inr \<lparr>symbol = symb,
          sentiment =
            (if str_in (ascii ''positive'') (str_lower lib content) then ascii ''Positive''
             else if str_in (ascii ''negative'') (str_lower lib content) then ascii ''Negative''
             else ascii ''Neutral''),
          reason = (if length content > 200 then take 200 content @ ascii ''...'' else content),
          confidence_score = 8 / 10\<rparr>"
  by (simp add: parse_loose_def Let_def NewsAnalysisResponse_new_str)

lemma parse_content_loose:
  "json_loads lib content = Inl JSONDecodeError \<Longrightarrow>
     parse_content lib symb content = parse_loose lib symb content"
  by (simp add: parse_content_def parse_structured_def)

lemma parse_structured_dict:
  "json_loads lib content = Inr (PDict d) \<Longrightarrow>
     parse_structured lib symb content =
       (case py_float lib (dict_get d (ascii ''confidence_score'') (PFloat (Finite (7 / 10)))) of
          Inl e \<Rightarrow> Inl e
        | Inr c \<Rightarrow>
            NewsAnalysisResponse_new lib symb
              (dict_get d (ascii ''sentiment'') (PStr (ascii ''Neutral'')))
              (dict_get d (ascii ''reason'') (PStr reason_llm_default)) c)"
  by (simp add: parse_structured_def)

lemma parse_structured_dict_Inl:
  "json_loads lib content = Inr (PDict d) \<Longrightarrow> parse_structured lib symb content = Inl e \<Longrightarrow>
     e \<noteq> JSONDecodeError"
  by (auto simp: parse_structured_dict split: sum.splits
      dest: py_float_Inl NewsAnalysisResponse_new_Inl)

lemma parse_content_dict:
  "json_loads lib content = Inr (PDict d) \<Longrightarrow>
     parse_content lib symb content = parse_structured lib symb content"
  by (auto simp: parse_content_def split: sum.splits dest: parse_structured_dict_Inl)

lemma parse_content_confidence:
  "parse_content lib symb content = Inr r \<Longrightarrow>
     0 \<le> confidence_score r \<and> confidence_score r \<le> 1"
  by (auto simp: parse_content_def parse_structured_def parse_loose_eq
      split: sum.splits pyval.splits if_splits dest: NewsAnalysisResponse_new_Inr)

text \<open>The result of \<^verbatim>\<open>real_analyze_news\<close> from the outcome of the body of its \<^verbatim>\<open>try\<close>.\<close>

lemma real_analyze_news_Inr:
  "provider_path lib env cl symb items = (tr, Inr r) \<Longrightarrow>
     real_analyze_news lib env (Some cl) symb items = (tr, Inr r)"
  by (simp add: real_analyze_news_def)

lemma real_analyze_news_Inl:
  "provider_path lib env cl symb items = (tr, Inl e) \<Longrightarrow>
     real_analyze_news lib env (Some cl) symb items =
       (tr @ Log_llm_failed e # fst (mock_analyze_news lib symb items),
        snd (mock_analyze_news lib symb items))"
  by (simp add: real_analyze_news_def split: prod.splits)

lemma real_analyze_news_snd:
  "snd (real_analyze_news lib env (Some cl) symb items) =
     (case snd (provider_path lib env cl symb items) of
        Inr r \<Rightarrow> Inr r
      | Inl e \<Rightarrow> snd (mock_analyze_news lib symb items))"
  by (simp add: real_analyze_news_def split: prod.splits sum.splits)

lemma provider_path_content:
  "build_request lib env (build_prompt symb items) = Inr rq \<Longrightarrow> cl rq = Inr response \<Longrightarrow>
   response_content lib response = Inr content \<Longrightarrow>
     provider_path lib env cl symb items = ([Provider_create rq], parse_content lib symb content)"
  by (simp add: provider_path_def)

lemma provider_path_confidence:
  "provider_path lib env cl symb items = (tr, Inr r) \<Longrightarrow>
     0 \<le> confidence_score r \<and> confidence_score r \<le> 1"
  by (auto simp: provider_path_def split: sum.splits dest: parse_content_confidence)

lemma real_analyze_news_valid:
  "\<exists>r. snd (real_analyze_news lib env openai_client symb items) = Inr r
     \<and> 0 \<le> confidence_score r \<and> confidence_score r \<le> 1"
proof (cases openai_client)
  case None
  then show ?thesis
    using mock_analyze_news_valid [of lib symb items] by (auto simp: real_analyze_news_def)
next
  case (Some cl)
  obtain tr res where p: "provider_path lib env cl symb items = (tr, res)"
    by (cases "provider_path lib env cl symb items")
  show ?thesis
  proof (cases res)
    case (Inl e)
    with p Some show ?thesis
      using mock_analyze_news_valid [of lib symb items] by (auto simp: real_analyze_news_Inl)
  next
    case (Inr r)
    with p Some show ?thesis
      using provider_path_confidence [of lib env cl symb items tr r]
      by (simp add: real_analyze_news_Inr)
  qed
qed

subsection \<open>Evaluation of the provider examples\<close>

lemma build_request_env0:
  "build_request lib0 env0 p =
     Inr \<lparr>model = ascii ''gpt-3.5-turbo'',
          messages = [(ascii ''system'', system_prompt), (ascii ''user'', p)],
          max_tokens = 1000, temperature = Finite (7 / 10)\<rparr>"
  by (simp add: build_request_def env0_def)

lemma response_content_reply:
  "client_reply text rq = Inr \<lparr>choices = [Some text]\<rparr>"
  "response_content lib0 \<lparr>choices = [Some text]\<rparr> = Inr (strip_blank text)"
  by (simp_all add: client_reply_def response_content_def lib0_def)

lemma strip_blank_examples:
  "strip_blank content_bullish = content_bullish"
  "strip_blank content_conf_high = content_conf_high"
  "strip_blank content_conf_word = content_conf_word"
  "strip_blank content_mixed = content_mixed"
  "strip_blank content_long = content_long"
  "strip_blank [] = []"
  by (simp_all add: strip_blank_def content_bullish_def content_conf_high_def
      content_conf_word_def content_mixed_def content_long_def ascii_def)

lemma json_loads_examples:
  "json_loads lib0 content_bullish = Inr (PDict [(ascii ''sentiment'', PStr (ascii ''Bullish''))])"
  "json_loads lib0 content_conf_high =
     Inr (PDict [(ascii ''confidence_score'', PFloat (Finite (3 / 2)))])"
  "json_loads lib0 content_conf_word =
     Inr (PDict [(ascii ''confidence_score'', PStr (ascii ''high''))])"
  "json_loads lib0 content_mixed = Inl JSONDecodeError"
  "json_loads lib0 [] = Inl JSONDecodeError"
  by (simp_all add: lib0_def json_examples_def content_bullish_def content_conf_high_def
      content_conf_word_def content_mixed_def ascii_def)

lemma json_loads_long: "json_loads lib0 content_long = Inl JSONDecodeError"
proof -
  have "hd content_long \<noteq> hd content_bullish" "hd content_long \<noteq> hd content_conf_high"
    "hd content_long \<noteq> hd content_conf_word"
    by (simp_all add: content_long_def content_bullish_def content_conf_high_def
        content_conf_word_def)
  then have "content_long \<noteq> content_bullish" "content_long \<noteq> content_conf_high"
    "content_long \<noteq> content_conf_word"
    by auto
  then show ?thesis by (simp add: lib0_def json_examples_def)
qed

lemma provider_path_reply:
  "provider_path lib0 env0 (client_reply text) symb items =
     ([Provider_create
         \<lparr>model = ascii ''gpt-3.5-turbo'',
          messages = [(ascii ''system'', system_prompt), (ascii ''user'', build_prompt symb items)],
          max_tokens = 1000, temperature = Finite (7 / 10)\<rparr>],
      parse_content lib0 symb (strip_blank text))"
  by (simp add: provider_path_def build_request_env0 response_content_reply)

lemma pydantic_str_lib0: "pydantic_str lib0 v = None" "float_of_str lib0 s = None"
  by (simp_all add: lib0_def)

lemma parse_structured_examples:
  "parse_structured lib0 symb content_bullish =
     Inr \<lparr>symbol = symb, sentiment = ascii ''Bullish'', reason = reason_llm_default,
          confidence_score = 7 / 10\<rparr>"
  "parse_structured lib0 symb content_conf_high = Inl ValidationError"
  "parse_structured lib0 symb content_conf_word = Inl ValueError"
  by (simp_all add: parse_structured_dict [OF json_loads_examples(1)]
      parse_structured_dict [OF json_loads_examples(2)]
      parse_structured_dict [OF json_loads_examples(3)]
      dict_get_def py_float_def NewsAnalysisResponse_new_def validate_str_def ascii_def
      pydantic_str_lib0)

lemma parse_content_examples:
  "parse_content lib0 symb content_bullish =
     Inr \<lparr>symbol = symb, sentiment = ascii ''Bullish'', reason = reason_llm_default,
          confidence_score = 7 / 10\<rparr>"
  "parse_content lib0 symb content_conf_high = Inl ValidationError"
  "parse_content lib0 symb content_conf_word = Inl ValueError"
  "parse_content lib0 symb [] =
     Inr \<lparr>symbol = symb, sentiment = ascii ''Neutral'', reason = [], confidence_score = 8 / 10\<rparr>"
proof -
  have "str_lower lib0 [] = []" by (simp add: lib0_def lower_ascii_def)
  then show "parse_content lib0 symb [] =
     Inr \<lparr>symbol = symb, sentiment = ascii ''Neutral'', reason = [], confidence_score = 8 / 10\<rparr>"
    by (simp add: parse_content_loose [OF json_loads_examples(5)] parse_loose_eq ascii_def)
qed (simp_all add: parse_content_def parse_structured_examples)

lemma bullish_not_a_sentiment:
  "ascii ''Bullish'' \<noteq> ascii ''Positive''" "ascii ''Bullish'' \<noteq> ascii ''Negative''"
  "ascii ''Bullish'' \<noteq> ascii ''Neutral''"
  by (simp_all add: ascii_def)

lemma lower_mixed:
  "str_in (ascii ''positive'') (str_lower lib0 content_mixed)"
  "str_in (ascii ''negative'') (str_lower lib0 content_mixed)"
  by (simp_all add: lib0_def lower_ascii_def content_mixed_def ascii_def)

lemma lower_long:
  "str_lower lib0 content_long = content_long"
  "\<not> str_in (ascii ''positive'') content_long"
  "\<not> str_in (ascii ''negative'') content_long"
proof -
  show "str_lower lib0 content_long = content_long"
    by (simp add: lib0_def lower_ascii_def content_long_def)
  have "set content_long = {97}" by (simp add: content_long_def)
  moreover have "112 \<in> set (ascii ''positive'')" "110 \<in> set (ascii ''negative'')"
    by (simp_all add: ascii_def)
  ultimately show "\<not> str_in (ascii ''positive'') content_long"
    "\<not> str_in (ascii ''negative'') content_long"
    using set_mono_sublist by (fastforce simp: str_in_iff_sublist)+
qed

lemma count_news_report:
  "count_news lib0 [text_report] = \<lparr>sentiment_score = 0, positive_count = 0, negative_count = 0\<rparr>"
  by (simp add: count_news_hits lower_lib0 hits_examples)

lemma mock_report:
  "snd (mock_analyze_news lib0 symb [text_report]) =
     Inr \<lparr>symbol = symb, sentiment = ascii ''Neutral'', reason = reason_neutral,
          confidence_score = 1 / 2\<rparr>"
  by (simp add: mock_analyze_news_snd count_news_report)

lemma build_request_unset:
  "build_request lib env0 p =
     Inr \<lparr>model = ascii ''gpt-3.5-turbo'',
          messages = [(ascii ''system'', system_prompt), (ascii ''user'', p)],
          max_tokens = 1000, temperature = Finite (7 / 10)\<rparr>"
  by (simp add: build_request_def env0_def)

lemma response_content_Some:
  "choices response = Some raw # rest \<Longrightarrow>
     response_content lib response = Inr (str_strip lib raw)"
  by (simp add: response_content_def)

lemma parse_content_not_object:
  assumes "(\<exists>e. json_loads lib content = Inl e \<and> e \<noteq> JSONDecodeError)
     \<or> (\<exists>v. json_loads lib content = Inr v \<and> (\<forall>d. v \<noteq> PDict d))"
  shows "\<exists>e. parse_content lib symb content = Inl e"
  using assms
  by (auto simp: parse_content_def parse_structured_def split: pyval.splits)

lemma strip_blank_padded:
  "strip_blank (32 # replicate (Suc n) 97 @ [10]) = replicate (Suc n) 97"
  by (cases n) (simp_all add: strip_blank_def replicate_append_same)

lemma strip_blank_content_padded: "strip_blank content_padded = replicate 200 97"
  using strip_blank_padded [of 199] by (simp add: content_padded_def)

lemma strip_blank_content_quoted: "strip_blank content_quoted = content_quoted"
  by (simp add: strip_blank_def content_quoted_def)

lemma json_examples_letters:
  assumes "hd s = 97"
  shows "json_examples s = Inl JSONDecodeError"
proof -
  have "hd s \<noteq> hd content_bullish" "hd s \<noteq> hd content_conf_high"
    "hd s \<noteq> hd content_conf_word"
    using assms by (simp_all add: content_bullish_def content_conf_high_def content_conf_word_def)
  then have "s \<noteq> content_bullish" "s \<noteq> content_conf_high" "s \<noteq> content_conf_word"
    by auto
  then show ?thesis by (simp add: json_examples_def)
qed

lemma letters_no_token:
  "\<not> str_in (ascii ''positive'') (replicate n 97)"
  "\<not> str_in (ascii ''negative'') (replicate n 97)"
proof -
  have "set (replicate n 97) \<subseteq> {97 :: nat}" by auto
  moreover have "112 \<in> set (ascii ''positive'')" "110 \<in> set (ascii ''negative'')"
    by (simp_all add: ascii_def)
  ultimately show "\<not> str_in (ascii ''positive'') (replicate n 97)"
    "\<not> str_in (ascii ''negative'') (replicate n 97)"
    using set_mono_sublist by (fastforce simp: str_in_iff_sublist)+
qed

lemma lower_ascii_letters: "lower_ascii (replicate n 97) = replicate n 97"
  by (simp add: lower_ascii_def)

lemma lib1_fields:
  "str_lower lib1 = lower_ascii" "str_strip lib1 = strip_blank"
  "json_loads lib1 content_quoted = Inr (PStr (ascii ''positive''))"
  "str_lower lib0 = lower_ascii" "str_strip lib0 = strip_blank" "json_loads lib0 = json_examples"
  by (simp_all add: lib1_def lib0_def)

lemma mock_report_lib1:
  "snd (mock_analyze_news lib1 symb [text_report]) =
     Inr \<lparr>symbol = symb, sentiment = ascii ''Neutral'', reason = reason_neutral,
          confidence_score = 1 / 2\<rparr>"
  using lower_lib0(4)
  by (simp add: mock_analyze_news_snd count_news_hits lib1_fields hits_examples)

lemma quoted_contains_positive:
  "sublist (ascii ''positive'') (str_lower lib1 content_quoted)"
  by (simp add: str_in_iff_sublist [symmetric] lib1_fields lower_ascii_def content_quoted_def
      ascii_def)

subsection \<open>Fallback of the provider path\<close>

text \<open>The steps at which the body of the \<^verbatim>\<open>try\<close> can raise.\<close>

lemma provider_path_fails_iff:
  "snd (provider_path lib env cl symb items) = Inl e \<longleftrightarrow>
     build_request lib env (build_prompt symb items) = Inl e
     \<or> (\<exists>rq. build_request lib env (build_prompt symb items) = Inr rq
          \<and> (cl rq = Inl e
             \<or> (\<exists>response. cl rq = Inr response
                  \<and> (response_content lib response = Inl e
                     \<or> (\<exists>content. response_content lib response = Inr content
                          \<and> parse_content lib symb content = Inl e)))))"
  by (auto simp: provider_path_def split: sum.splits)

text \<open>
  Claim C2. When a step of the body of the \<^verbatim>\<open>try\<close> raises (the evaluation of the arguments,
  the call of the provider, the reading of the response, the parsing), the result of
  \<^verbatim>\<open>real_analyze_news\<close> is the result of \<^verbatim>\<open>mock_analyze_news\<close> on the same input; it
  is a response and never an exception. The trace is the one of the provider path, the line
  of the error log and the trace of the heuristic.
\<close>

theorem provider_failure_falls_back:
  assumes "provider_path lib env cl symb items = (tr, Inl e)"
  shows "snd (real_analyze_news lib env (Some cl) symb items) =
           snd (mock_analyze_news lib symb items)
     \<and> (\<exists>r. snd (real_analyze_news lib env (Some cl) symb items) = Inr r)
     \<and> fst (real_analyze_news lib env (Some cl) symb items) =
           tr @ Log_llm_failed e # fst (mock_analyze_news lib symb items)"
  using mock_analyze_news_valid [of lib symb items]
  by (auto simp: real_analyze_news_Inl [OF assms])

theorem provider_failure_falls_back_witness:
  "snd (real_analyze_news lib0 env0 (Some client_timeout) (ascii ''AAPL'')
          [text_iphone, text_tech_up]) =
     snd (mock_analyze_news lib0 (ascii ''AAPL'') [text_iphone, text_tech_up])
   \<and> snd (real_analyze_news lib0 env0 (Some (client_reply content_conf_high)) (ascii ''NEU'')
          [text_report]) =
     snd (mock_analyze_news lib0 (ascii ''NEU'') [text_report])"
proof -
  have a: "provider_path lib0 env0 client_timeout (ascii ''AAPL'') [text_iphone, text_tech_up] =
      ([Provider_create
          \<lparr>model = ascii ''gpt-3.5-turbo'',
           messages = [(ascii ''system'', system_prompt),
                       (ascii ''user'', build_prompt (ascii ''AAPL'') [text_iphone, text_tech_up])],
           max_tokens = 1000, temperature = Finite (7 / 10)\<rparr>],
       Inl (ProviderError (ascii ''timeout'')))"
    by (simp add: provider_path_def build_request_env0 client_timeout_def)
  have b: "provider_path lib0 env0 (client_reply content_conf_high) (ascii ''NEU'') [text_report] =
      ([Provider_create
          \<lparr>model = ascii ''gpt-3.5-turbo'',
           messages = [(ascii ''system'', system_prompt),
                       (ascii ''user'', build_prompt (ascii ''NEU'') [text_report])],
           max_tokens = 1000, temperature = Finite (7 / 10)\<rparr>],
       Inl ValidationError)"
    by (simp add: provider_path_reply strip_blank_examples parse_content_def
        parse_structured_examples)
  show ?thesis
    using provider_failure_falls_back [OF a] provider_failure_falls_back [OF b] by simp
qed

subsection \<open>The two stages of parsing\<close>

text \<open>
  Claim C6, as the code has it. The text that the code parses is the message content after
  \<^verbatim>\<open>strip\<close>. When \<^verbatim>\<open>json.loads\<close> rejects this text with a \<^verbatim>\<open>JSONDecodeError\<close>,
  the result carries the sentiment Positive if the lower-cased text contains "positive",
  else Negative if it contains "negative", else Neutral; its reason is the stripped text
  when that has at most 200 characters and its first 200 characters followed by "..." when
  it is longer; its confidence is 0.8. When \<^verbatim>\<open>json.loads\<close> raises another exception, or
  returns a value that is no object, the result is the one of the heuristic.
\<close>

theorem loose_text_result:
  assumes "build_request lib env (build_prompt symb items) = Inr rq"
    and "cl rq = Inr response"
    and "choices response = Some raw # rest"
  shows
    "(json_loads lib (str_strip lib raw) = Inl JSONDecodeError \<longrightarrow>
        (\<exists>r. snd (real_analyze_news lib env (Some cl) symb items) = Inr r
           \<and> symbol r = symb
           \<and> (sublist (ascii ''positive'') (str_lower lib (str_strip lib raw))
                \<longrightarrow> sentiment r = ascii ''Positive'')
           \<and> (\<not> sublist (ascii ''positive'') (str_lower lib (str_strip lib raw))
                \<and> sublist (ascii ''negative'') (str_lower lib (str_strip lib raw))
                \<longrightarrow> sentiment r = ascii ''Negative'')
           \<and> (\<not> sublist (ascii ''positive'') (str_lower lib (str_strip lib raw))
                \<and> \<not> sublist (ascii ''negative'') (str_lower lib (str_strip lib raw))
                \<longrightarrow> sentiment r = ascii ''Neutral'')
           \<and> (length (str_strip lib raw) \<le> 200 \<longrightarrow> reason r = str_strip lib raw)
           \<and> (200 < length (str_strip lib raw)
                \<longrightarrow> reason r = take 200 (str_strip lib raw) @ ascii ''...'')
           \<and> confidence_score r = 8 / 10))
     \<and> ((\<exists>e. json_loads lib (str_strip lib raw) = Inl e \<and> e \<noteq> JSONDecodeError)
          \<or> (\<exists>v. json_loads lib (str_strip lib raw) = Inr v \<and> (\<forall>d. v \<noteq> PDict d))
        \<longrightarrow> snd (real_analyze_news lib env (Some cl) symb items) =
              snd (mock_analyze_news lib symb items))"
proof -
  let ?content = "str_strip lib raw"
  have p: "provider_path lib env cl symb items =
      ([Provider_create rq], parse_content lib symb ?content)"
    using assms by (simp add: provider_path_content response_content_Some)
  have loose: "snd (real_analyze_news lib env (Some cl) symb items) = parse_loose lib symb ?content"
    if "json_loads lib ?content = Inl JSONDecodeError"
    using p that by (simp add: real_analyze_news_snd parse_content_loose parse_loose_eq)
  have other: "snd (real_analyze_news lib env (Some cl) symb items) =
      snd (mock_analyze_news lib symb items)"
    if h: "(\<exists>e. json_loads lib ?content = Inl e \<and> e \<noteq> JSONDecodeError)
      \<or> (\<exists>v. json_loads lib ?content = Inr v \<and> (\<forall>d. v \<noteq> PDict d))"
  proof -
    obtain e where "parse_content lib symb ?content = Inl e"
      using parse_content_not_object [OF h] by blast
    with p show ?thesis by (simp add: real_analyze_news_snd)
  qed
  show ?thesis
    using loose other by (simp add: parse_loose_eq str_in_iff_sublist)
qed

theorem loose_text_result_witness:
  "(\<exists>r. snd (real_analyze_news lib0 env0 (Some (client_reply content_mixed)) (ascii ''XYZ'')
            [text_loss_risk]) = Inr r
       \<and> sentiment r = ascii ''Positive'' \<and> reason r = content_mixed
       \<and> confidence_score r = 8 / 10)
   \<and> (\<exists>r. snd (real_analyze_news lib0 env0 (Some (client_reply content_long)) (ascii ''XYZ'')
            [text_loss_risk]) = Inr r
       \<and> sentiment r = ascii ''Neutral'' \<and> reason r = replicate 200 97 @ ascii ''...''
       \<and> confidence_score r = 8 / 10)
   \<and> (\<exists>r. snd (real_analyze_news lib0 env0 (Some (client_reply content_padded)) (ascii ''XYZ'')
            [text_loss_risk]) = Inr r
       \<and> sentiment r = ascii ''Neutral'' \<and> reason r = replicate 200 97
       \<and> confidence_score r = 8 / 10)
   \<and> snd (real_analyze_news lib1 env0 (Some (client_reply content_quoted)) (ascii ''NEU'')
            [text_report]) =
        snd (mock_analyze_news lib1 (ascii ''NEU'') [text_report])"
proof -
  have c: "choices \<lparr>choices = [Some t]\<rparr> = Some t # []" for t :: ustring
    by simp
  have m: "sublist (ascii ''positive'') (lower_ascii content_mixed)"
    "length content_mixed \<le> 200"
    using lower_mixed
    by (simp_all add: str_in_iff_sublist lib1_fields content_mixed_def ascii_def)
  have l: "\<not> sublist (ascii ''positive'') (lower_ascii content_long)"
    "\<not> sublist (ascii ''negative'') (lower_ascii content_long)"
    "200 < length content_long" "take 200 content_long = replicate 200 97"
    using lower_long by (simp_all add: str_in_iff_sublist lib1_fields content_long_def)
  have d: "\<not> sublist (ascii ''positive'') (lower_ascii (replicate 200 97))"
    "\<not> sublist (ascii ''negative'') (lower_ascii (replicate 200 97))"
    "json_examples (replicate 200 97) = Inl JSONDecodeError"
    using letters_no_token [of 200]
    by (simp_all add: str_in_iff_sublist lower_ascii_letters json_examples_letters)
  have j: "json_examples content_mixed = Inl JSONDecodeError"
    "json_examples content_long = Inl JSONDecodeError"
    using json_loads_examples(4) json_loads_long by (simp_all add: lib1_fields)
  show ?thesis
    using
      loose_text_result [where lib = lib0 and env = env0 and symb = "ascii ''XYZ''"
        and items = "[text_loss_risk]" and cl = "client_reply content_mixed"
        and raw = content_mixed, OF build_request_unset response_content_reply(1) c]
      loose_text_result [where lib = lib0 and env = env0 and symb = "ascii ''XYZ''"
        and items = "[text_loss_risk]" and cl = "client_reply content_long"
        and raw = content_long, OF build_request_unset response_content_reply(1) c]
      loose_text_result [where lib = lib0 and env = env0 and symb = "ascii ''XYZ''"
        and items = "[text_loss_risk]" and cl = "client_reply content_padded"
        and raw = content_padded, OF build_request_unset response_content_reply(1) c]
      loose_text_result [where lib = lib1 and env = env0 and symb = "ascii ''NEU''"
        and items = "[text_report]" and cl = "client_reply content_quoted"
        and raw = content_quoted, OF build_request_unset response_content_reply(1) c]
      m l d j
    by (simp add: lib1_fields strip_blank_examples strip_blank_content_padded
        strip_blank_content_quoted) blast
qed

text \<open>
  The claim as the specification states it fails on two answers. The JSON string "positive"
  parses, so that the text is not analysed although it contains the token: the result is
  the one of the heuristic, Neutral with confidence 0.5. Of the text of 202 characters the
  reason is the 200 letters that remain after \<^verbatim>\<open>strip\<close>, without the ellipsis, and not
  the first 200 characters of the text followed by "...".
\<close>

theorem loose_text_claim_fails:
  "sublist (ascii ''positive'') (str_lower lib1 content_quoted)
   \<and> snd (real_analyze_news lib1 env0 (Some (client_reply content_quoted)) (ascii ''NEU'')
        [text_report]) =
     Inr \<lparr>symbol = ascii ''NEU'', sentiment = ascii ''Neutral'', reason = reason_neutral,
          confidence_score = 1 / 2\<rparr>
   \<and> length content_padded = 202
   \<and> snd (real_analyze_news lib0 env0 (Some (client_reply content_padded)) (ascii ''NEU'')
        [text_report]) =
     Inr \<lparr>symbol = ascii ''NEU'', sentiment = ascii ''Neutral'', reason = replicate 200 97,
          confidence_score = 8 / 10\<rparr>
   \<and> replicate 200 97 \<noteq> take 200 content_padded @ ascii ''...''"
proof -
  have q: "provider_path lib1 env0 (client_reply content_quoted) (ascii ''NEU'') [text_report] =
      ([Provider_create
          \<lparr>model = ascii ''gpt-3.5-turbo'',
           messages = [(ascii ''system'', system_prompt),
                       (ascii ''user'', build_prompt (ascii ''NEU'') [text_report])],
           max_tokens = 1000, temperature = Finite (7 / 10)\<rparr>],
       Inl AttributeError)"
    by (simp add: provider_path_def build_request_unset client_reply_def response_content_def
        lib1_fields strip_blank_content_quoted parse_content_def parse_structured_def)
  have a: "snd (real_analyze_news lib1 env0 (Some (client_reply content_quoted)) (ascii ''NEU'')
        [text_report]) =
     Inr \<lparr>symbol = ascii ''NEU'', sentiment = ascii ''Neutral'', reason = reason_neutral,
          confidence_score = 1 / 2\<rparr>"
    by (simp add: real_analyze_news_snd q mock_report_lib1)
  have "parse_content lib0 (ascii ''NEU'') (replicate 200 97) =
      Inr \<lparr>symbol = ascii ''NEU'', sentiment = ascii ''Neutral'', reason = replicate 200 97,
           confidence_score = 8 / 10\<rparr>"
    using letters_no_token [of 200]
    by (simp add: parse_content_loose parse_loose_eq lib1_fields json_examples_letters
        lower_ascii_letters)
  then have b: "snd (real_analyze_news lib0 env0 (Some (client_reply content_padded))
        (ascii ''NEU'') [text_report]) =
     Inr \<lparr>symbol = ascii ''NEU'', sentiment = ascii ''Neutral'', reason = replicate 200 97,
          confidence_score = 8 / 10\<rparr>"
    by (simp add: real_analyze_news_snd provider_path_reply strip_blank_content_padded)
  have c: "length content_padded = 202"
    "length (replicate 200 (97::nat)) \<noteq> length (take 200 content_padded @ ascii ''...'')"
    by (simp_all add: content_padded_def ascii_def)
  then have "replicate 200 97 \<noteq> take 200 content_padded @ ascii ''...''"
    by metis
  with a b c(1) quoted_contains_positive show ?thesis by simp
qed

text \<open>
  Claim C10. On the same path, a text whose lower case contains both "positive" and
  "negative" gets the sentiment Positive: the test for "positive" comes first.
\<close>

theorem loose_text_positive_first:
  assumes "build_request lib env (build_prompt symb items) = Inr rq"
    and "cl rq = Inr response"
    and "response_content lib response = Inr content"
    and "json_loads lib content = Inl JSONDecodeError"
    and "sublist (ascii ''positive'') (str_lower lib content)"
    and "sublist (ascii ''negative'') (str_lower lib content)"
  shows "\<exists>r. snd (real_analyze_news lib env (Some cl) symb items) = Inr r
     \<and> sentiment r = ascii ''Positive''"
proof -
  have "provider_path lib env cl symb items = ([Provider_create rq], parse_loose lib symb content)"
    using assms by (simp add: provider_path_content parse_content_loose)
  then show ?thesis
    using assms(5) by (simp add: parse_loose_eq real_analyze_news_Inr str_in_iff_sublist)
qed

theorem loose_text_positive_first_witness:
  "sublist (ascii ''positive'') (str_lower lib0 content_mixed)
   \<and> sublist (ascii ''negative'') (str_lower lib0 content_mixed)
   \<and> (\<exists>r. snd (real_analyze_news lib0 env0 (Some (client_reply content_mixed)) (ascii ''AAPL'')
            [text_tech_up]) = Inr r \<and> sentiment r = ascii ''Positive'')"
proof -
  have m: "sublist (ascii ''positive'') (str_lower lib0 content_mixed)"
    "sublist (ascii ''negative'') (str_lower lib0 content_mixed)"
    using lower_mixed by (simp_all add: str_in_iff_sublist)
  have c: "response_content lib0 \<lparr>choices = [Some content_mixed]\<rparr> = Inr content_mixed"
    by (simp add: response_content_reply strip_blank_examples)
  show ?thesis
    using
      loose_text_positive_first [where symb = "ascii ''AAPL''" and items = "[text_tech_up]",
        OF build_request_env0 response_content_reply(1) c json_loads_examples(4) m] m
    by simp
qed

text \<open>
  Claim C5, as the code has it. When the text of the response parses as a JSON object, the
  three fields are read with \<^verbatim>\<open>get\<close>, whose default applies only to a missing key:
  Neutral, the generic reason, 0.7. A sentiment and a reason that validate as strings are
  returned as they are, whatever the sentiment says; the confidence is \<^verbatim>\<open>float(..)\<close> of
  the field and is returned unchanged when it lies in [0,1]. There is neither a check of the
  sentiment against the three values nor a clamp: when the coercion raises, when the value
  is not a number of [0,1] or when a field does not validate, the result is the one of the
  heuristic.
\<close>

theorem structured_result:
  assumes "build_request lib env (build_prompt symb items) = Inr rq"
    and "cl rq = Inr response"
    and "response_content lib response = Inr content"
    and "json_loads lib content = Inr (PDict d)"
  shows
    "(\<forall>s r c.
        validate_str lib (dict_get d (ascii ''sentiment'') (PStr (ascii ''Neutral''))) = Some s
        \<and> validate_str lib (dict_get d (ascii ''reason'') (PStr reason_llm_default)) = Some r
        \<and> py_float lib (dict_get d (ascii ''confidence_score'') (PFloat (Finite (7 / 10))))
            = Inr (Finite c)
        \<and> 0 \<le> c \<and> c \<le> 1
        \<longrightarrow> snd (real_analyze_news lib env (Some cl) symb items) =
              Inr \<lparr>symbol = symb, sentiment = s, reason = r, confidence_score = c\<rparr>)
     \<and> (validate_str lib (dict_get d (ascii ''sentiment'') (PStr (ascii ''Neutral''))) = None
        \<or> validate_str lib (dict_get d (ascii ''reason'') (PStr reason_llm_default)) = None
        \<or> (\<forall>c. py_float lib (dict_get d (ascii ''confidence_score'') (PFloat (Finite (7 / 10))))
                  = Inr (Finite c) \<longrightarrow> c < 0 \<or> 1 < c)
        \<longrightarrow> snd (real_analyze_news lib env (Some cl) symb items) =
              snd (mock_analyze_news lib symb items))"
proof -
  let ?sv = "dict_get d (ascii ''sentiment'') (PStr (ascii ''Neutral''))"
  let ?rv = "dict_get d (ascii ''reason'') (PStr reason_llm_default)"
  let ?cv = "dict_get d (ascii ''confidence_score'') (PFloat (Finite (7 / 10)))"
  have p: "provider_path lib env cl symb items =
      ([Provider_create rq], parse_structured lib symb content)"
    using assms by (simp add: provider_path_content parse_content_dict)
  have ok: "snd (real_analyze_news lib env (Some cl) symb items) =
        Inr \<lparr>symbol = symb, sentiment = s, reason = r, confidence_score = c\<rparr>"
    if "validate_str lib ?sv = Some s" "validate_str lib ?rv = Some r"
      "py_float lib ?cv = Inr (Finite c)" "0 \<le> c" "c \<le> 1" for s r c
  proof -
    have "parse_structured lib symb content =
        Inr \<lparr>symbol = symb, sentiment = s, reason = r, confidence_score = c\<rparr>"
      using that by (simp add: parse_structured_dict [OF assms(4)] NewsAnalysisResponse_new_def)
    with p show ?thesis by (simp add: real_analyze_news_Inr)
  qed
  have bad: "snd (real_analyze_news lib env (Some cl) symb items) =
        snd (mock_analyze_news lib symb items)"
    if "validate_str lib ?sv = None \<or> validate_str lib ?rv = None
        \<or> (\<forall>c. py_float lib ?cv = Inr (Finite c) \<longrightarrow> c < 0 \<or> 1 < c)"
  proof -
    have "\<exists>e. parse_structured lib symb content = Inl e"
      using that
      by (auto simp: parse_structured_dict [OF assms(4)] NewsAnalysisResponse_new_def
          split: sum.splits option.splits pyfloat.splits)
    then obtain e where "parse_structured lib symb content = Inl e" ..
    with p show ?thesis by (simp add: real_analyze_news_Inl)
  qed
  from ok bad show ?thesis by blast
qed

theorem structured_result_witness:
  "snd (real_analyze_news lib0 env0 (Some (client_reply content_bullish)) (ascii ''NEU'')
          [text_report]) =
     Inr \<lparr>symbol = ascii ''NEU'', sentiment = ascii ''Bullish'', reason = reason_llm_default,
          confidence_score = 7 / 10\<rparr>
   \<and> snd (real_analyze_news lib0 env0 (Some (client_reply content_conf_high)) (ascii ''NEU'')
          [text_report]) =
     snd (mock_analyze_news lib0 (ascii ''NEU'') [text_report])"
proof -
  have c: "response_content lib0 \<lparr>choices = [Some content_bullish]\<rparr> = Inr content_bullish"
    "response_content lib0 \<lparr>choices = [Some content_conf_high]\<rparr> = Inr content_conf_high"
    by (simp_all add: response_content_reply strip_blank_examples)
  show ?thesis
    using
      structured_result [where symb = "ascii ''NEU''" and items = "[text_report]",
        OF build_request_env0 response_content_reply(1) c(1) json_loads_examples(1)]
      structured_result [where symb = "ascii ''NEU''" and items = "[text_report]",
        OF build_request_env0 response_content_reply(1) c(2) json_loads_examples(2)]
    by (simp add: dict_get_def py_float_def validate_str_def ascii_def)
qed

text \<open>
  The claim as the specification states it fails on three answers of the provider: a
  sentiment outside the three values is returned and not replaced by Neutral; a confidence
  of 1.5 is not clamped to 1 and a confidence that is no number is not replaced by 0.7,
  both lead to the result of the heuristic, here Neutral with confidence 0.5.
\<close>

theorem structured_result_not_clamped:
  "snd (real_analyze_news lib0 env0 (Some (client_reply content_bullish)) (ascii ''NEU'')
          [text_report]) =
     Inr \<lparr>symbol = ascii ''NEU'', sentiment = ascii ''Bullish'', reason = reason_llm_default,
          confidence_score = 7 / 10\<rparr>
   \<and> ascii ''Bullish'' \<noteq> ascii ''Neutral''
   \<and> snd (real_analyze_news lib0 env0 (Some (client_reply content_conf_high)) (ascii ''NEU'')
          [text_report]) =
     Inr \<lparr>symbol = ascii ''NEU'', sentiment = ascii ''Neutral'', reason = reason_neutral,
          confidence_score = 1 / 2\<rparr>
   \<and> snd (real_analyze_news lib0 env0 (Some (client_reply content_conf_word)) (ascii ''NEU'')
          [text_report]) =
     Inr \<lparr>symbol = ascii ''NEU'', sentiment = ascii ''Neutral'', reason = reason_neutral,
          confidence_score = 1 / 2\<rparr>"
  by (simp add: real_analyze_news_snd provider_path_reply strip_blank_examples
      parse_content_examples mock_report bullish_not_a_sentiment)

subsection \<open>The invariant of the response\<close>

text \<open>
  Claim C7, as the code has it. Every call of \<^verbatim>\<open>real_analyze_news\<close> returns a response,
  and its confidence lies in [0,1]. A response of the heuristic has one of the three
  sentiments and a reason that is not empty. A response of the analysis of the text has one
  of the three sentiments, and its reason is not empty when the text is not empty. Of a
  response built from a JSON object nothing more is known: sentiment and reason are the
  strings of the provider.
\<close>

theorem response_invariant:
  "(\<exists>r. snd (real_analyze_news lib env openai_client symb items) = Inr r
       \<and> 0 \<le> confidence_score r \<and> confidence_score r \<le> 1)
   \<and> (\<exists>r. snd (mock_analyze_news lib symb items) = Inr r
       \<and> sentiment r \<in> {ascii ''Positive'', ascii ''Negative'', ascii ''Neutral''}
       \<and> reason r \<noteq> [])
   \<and> (\<exists>r. parse_loose lib symb content = Inr r
       \<and> sentiment r \<in> {ascii ''Positive'', ascii ''Negative'', ascii ''Neutral''}
       \<and> (content \<noteq> [] \<longrightarrow> reason r \<noteq> []))"
  using real_analyze_news_valid [of lib env openai_client symb items]
    mock_analyze_news_valid [of lib symb items]
  by (auto simp: parse_loose_eq)

theorem response_invariant_witness:
  "(\<exists>r. snd (real_analyze_news lib0 env0 (Some (client_reply content_mixed)) (ascii ''XYZ'')
            [text_loss_risk]) = Inr r
       \<and> 0 \<le> confidence_score r \<and> confidence_score r \<le> 1)
   \<and> (\<exists>r. parse_loose lib0 (ascii ''XYZ'') content_mixed = Inr r
       \<and> sentiment r \<in> {ascii ''Positive'', ascii ''Negative'', ascii ''Neutral''}
       \<and> reason r \<noteq> [])"
proof -
  have "content_mixed \<noteq> []" by (simp add: content_mixed_def ascii_def)
  then show ?thesis
    using response_invariant [of lib0 env0 "Some (client_reply content_mixed)" "ascii ''XYZ''"
        "[text_loss_risk]" content_mixed]
    by simp
qed

text \<open>
  The claim as the specification states it fails: a JSON answer with the sentiment "Bullish"
  gives a response with that sentiment, and an empty answer gives a response with the empty
  reason.
\<close>

theorem response_invariant_fails:
  "sentiment (projr (snd (real_analyze_news lib0 env0 (Some (client_reply content_bullish))
       (ascii ''NEU'') [text_report]))) = ascii ''Bullish''
   \<and> ascii ''Bullish'' \<noteq> ascii ''Positive''
   \<and> ascii ''Bullish'' \<noteq> ascii ''Negative''
   \<and> ascii ''Bullish'' \<noteq> ascii ''Neutral''
   \<and> reason (projr (snd (real_analyze_news lib0 env0 (Some (client_reply []))
       (ascii ''NEU'') [text_report]))) = []"
  by (simp add: real_analyze_news_snd provider_path_reply strip_blank_examples
      parse_content_examples bullish_not_a_sentiment)

subsection \<open>The validation of the request\<close>

text \<open>
  The check is the endpoint's: \<^verbatim>\<open>mock_analyze_news\<close>, and with it \<^verbatim>\<open>real_analyze_news\<close>
  without a client, answers an empty list of news with Neutral.
\<close>

lemma mock_analyze_news_empty:
  "snd (mock_analyze_news lib symb []) =
     Inr \<lparr>symbol = symb, sentiment = ascii ''Neutral'', reason = reason_neutral,
          confidence_score = 5 / 10\<rparr>"
  by (simp add: mock_analyze_news_snd count_news_def)

text \<open>
  Claim C8. \<^verbatim>\<open>analyze_news\<close> answers a request with an empty symbol or an empty list of
  news with the HTTP error 400; the trace then holds the line that logs the request and
  nothing else, so neither the provider nor the heuristic has run. Every other request is
  answered with the response of \<^verbatim>\<open>real_analyze_news\<close>: no other error reaches the caller.
\<close>

theorem analyze_news_rejects_only_empty:
  "(req_symbol request = [] \<or> news_items request = [] \<longrightarrow>
      (\<exists>d. snd (analyze_news lib env openai_client request) = Inl (HTTPException 400 d))
      \<and> fst (analyze_news lib env openai_client request) =
          [Log_request (req_symbol request) (length (news_items request))])
   \<and> (req_symbol request \<noteq> [] \<and> news_items request \<noteq> [] \<longrightarrow>
      (\<exists>r. snd (analyze_news lib env openai_client request) = Inr r
         \<and> snd (real_analyze_news lib env openai_client (req_symbol request)
                (news_items request)) = Inr r))"
proof -
  obtain r where "snd (real_analyze_news lib env openai_client (req_symbol request)
      (news_items request)) = Inr r"
    using real_analyze_news_valid by blast
  then show ?thesis
    by (auto simp: analyze_news_def Let_def split: prod.splits sum.splits)
qed

theorem analyze_news_rejects_only_empty_witness:
  "analyze_news lib0 env0 (Some client_timeout)
       \<lparr>req_symbol = [], news_items = [text_tech_up]\<rparr> =
     ([Log_request [] 1], Inl (HTTPException 400 detail_empty_symbol))
   \<and> analyze_news lib0 env0 (Some client_timeout)
       \<lparr>req_symbol = ascii ''AAPL'', news_items = []\<rparr> =
     ([Log_request (ascii ''AAPL'') 0], Inl (HTTPException 400 detail_empty_news))
   \<and> (\<exists>r. snd (analyze_news lib0 env0 (Some client_timeout)
       \<lparr>req_symbol = ascii ''AAPL'', news_items = [text_tech_up]\<rparr>) = Inr r)"
proof -
  have a: "snd (analyze_news lib0 env0 (Some client_timeout)
       \<lparr>req_symbol = [], news_items = [text_tech_up]\<rparr>) =
      Inl (HTTPException 400 detail_empty_symbol)"
    "snd (analyze_news lib0 env0 (Some client_timeout)
       \<lparr>req_symbol = ascii ''AAPL'', news_items = []\<rparr>) =
      Inl (HTTPException 400 detail_empty_news)"
    by (simp_all add: analyze_news_def Let_def ascii_def)
  show ?thesis
    using
      analyze_news_rejects_only_empty [of "\<lparr>req_symbol = [], news_items = [text_tech_up]\<rparr>"
        lib0 env0 "Some client_timeout"]
      analyze_news_rejects_only_empty [of "\<lparr>req_symbol = ascii ''AAPL'', news_items = []\<rparr>"
        lib0 env0 "Some client_timeout"]
      analyze_news_rejects_only_empty
        [of "\<lparr>req_symbol = ascii ''AAPL'', news_items = [text_tech_up]\<rparr>"
        lib0 env0 "Some client_timeout"]
      a
    by (auto simp: ascii_def prod_eq_iff)
qed

end
